theory Spec2Isabelle
  imports Complex_Main
begin

section \<open>The ISS tracker: data model\<close>

text \<open>
  The program is one class, \<^verbatim>\<open>ISSTracker\<close> (file \<^verbatim>\<open>iss_tkintermapview.py\<close>). Its methods
  mutate the attributes of \<^verbatim>\<open>self\<close> and raise Python exceptions. A method is modelled as
  a function from the object before the call to a pair: how the call ended (\<open>None\<close> when
  it returned, \<open>Some e\<close> when exception \<open>e\<close> left it) and the object after it. The object
  is returned in both cases, since an assignment made before a \<^verbatim>\<open>raise\<close> stays made.
\<close>

text \<open>The exception classes that the calls of the program raise; all derive from
  \<^verbatim>\<open>Exception\<close>.\<close>

datatype exn =
    ConnectionError   \<comment> \<open>\<^verbatim>\<open>requests.get\<close>: no connection, DNS failure, timeout\<close>
  | HTTPError         \<comment> \<open>\<^verbatim>\<open>response.raise_for_status()\<close>\<close>
  | JSONDecodeError   \<comment> \<open>\<^verbatim>\<open>response.json()\<close> on a body that is not JSON\<close>
  | AttributeError    \<comment> \<open>an attribute that the object does not have\<close>
  | TypeError         \<comment> \<open>\<^verbatim>\<open>float(None)\<close>, \<^verbatim>\<open>float([])\<close>\<close>
  | ValueError        \<comment> \<open>\<^verbatim>\<open>float("abc")\<close>\<close>
  | TclError          \<comment> \<open>a Tk command on a destroyed application\<close>

text \<open>A value found under a key of the decoded JSON object, as far as \<^verbatim>\<open>float\<close> tells
  values apart.\<close>

datatype jval =
    JNull
  | JBool bool
  | JNum real
  | JStr string
  | JCompound   \<comment> \<open>a list or an object\<close>

datatype body =
    NotJson                          \<comment> \<open>\<^verbatim>\<open>response.json()\<close> raises\<close>
  | JsonOther                        \<comment> \<open>valid JSON that is not an object: it has no \<^verbatim>\<open>get\<close>\<close>
  | JsonDict "string \<rightharpoonup> jval"

text \<open>What \<^verbatim>\<open>requests.get(URL)\<close> meets: no answer, or a status code with a body.\<close>

datatype reply =
    NoReply
  | Reply nat body

record marker_obj =
  position :: "real \<times> real"
  color_circle :: string
  color_outside :: string

text \<open>
  The attributes of an \<^verbatim>\<open>ISSTracker\<close>. \<open>latitude\<close> and \<open>longitude\<close> are \<open>None\<close> until
  \<^verbatim>\<open>get_iss_position\<close> has assigned them (the constructor does not initialise them);
  \<open>marker\<close> is Python's \<^verbatim>\<open>None\<close> or a marker of the map. The widgets are kept by what
  they show: the three labels by the number they display, the map by its centre, zoom and
  tile server, the root window by whether it has been destroyed and by the callbacks that
  \<^verbatim>\<open>root.after\<close> has queued for the main loop.
\<close>

datatype callback = Update_marker_position

record tracker =
  width :: int
  height :: int
  update_interval :: int
  running :: bool
  update_thread :: bool             \<comment> \<open>whether \<^verbatim>\<open>run\<close> has started the thread\<close>
  count :: int
  marker :: "marker_obj option"
  latitude :: "real option"
  longitude :: "real option"
  root_destroyed :: bool
  after_queue :: "callback list"
  map_position :: "real \<times> real"
  map_zoom :: nat
  tile_server :: string
  map_max_zoom :: nat
  lbl_lat :: real
  lbl_lon :: real
  lbl_count :: int

section \<open>Fetching the position\<close>

text \<open>
  \<^verbatim>\<open>float(x)\<close> for the values a JSON document can hold. How Python reads a string as a
  float is a parameter \<open>sf\<close> (\<open>None\<close>: the string is no float literal, \<^verbatim>\<open>ValueError\<close>).
\<close>

fun py_float :: "(string \<Rightarrow> real option) \<Rightarrow> jval \<Rightarrow> exn + real" where
  "py_float sf JNull = Inl TypeError"
| "py_float sf (JBool b) = Inr (if b then 1 else 0)"
| "py_float sf (JNum x) = Inr x"
| "py_float sf (JStr t) = (case sf t of None \<Rightarrow> Inl ValueError | Some x \<Rightarrow> Inr x)"
| "py_float sf JCompound = Inl TypeError"

text \<open>\<^verbatim>\<open>position.get(key)\<close>: the value, or \<^verbatim>\<open>None\<close> for a key that is not there.\<close>

definition dict_get :: "(string \<rightharpoonup> jval) \<Rightarrow> string \<Rightarrow> jval" where
  "dict_get d k = (case d k of None \<Rightarrow> JNull | Some v \<Rightarrow> v)"

text \<open>\<^verbatim>\<open>raise_for_status\<close> raises for the 4xx and 5xx codes.\<close>

definition raise_for_status :: "nat \<Rightarrow> bool" where
  "raise_for_status status \<longleftrightarrow> 400 \<le> status \<and> status < 600"

text \<open>
  \<^verbatim>\<open>
  def get_iss_position(self):
      response = requests.get(URL)
      response.raise_for_status()
      position = response.json()
      self.latitude = float(position.get("latitude"))
      self.longitude = float(position.get("longitude"))
  \<close>
  The two assignments are two statements: the first is done when the second raises.
\<close>

definition get_iss_position ::
  "(string \<Rightarrow> real option) \<Rightarrow> reply \<Rightarrow> tracker \<Rightarrow> exn option \<times> tracker" where
  "get_iss_position sf r s =
     (case r of
        NoReply \<Rightarrow> (Some ConnectionError, s)
      | Reply status b \<Rightarrow>
          if raise_for_status status then (Some HTTPError, s)
          else (case b of
             NotJson \<Rightarrow> (Some JSONDecodeError, s)
           | JsonOther \<Rightarrow> (Some AttributeError, s)
           | JsonDict d \<Rightarrow>
               (case py_float sf (dict_get d ''latitude'') of
                  Inl e \<Rightarrow> (Some e, s)
                | Inr la \<Rightarrow>
                    (case py_float sf (dict_get d ''longitude'') of
                       Inl e \<Rightarrow> (Some e, s\<lparr>latitude := Some la\<rparr>)
                     | Inr lo \<Rightarrow>
                         (None, s\<lparr>latitude := Some la, longitude := Some lo\<rparr>)))))"

section \<open>Calls on the outside world\<close>

text \<open>
  What a method does besides assigning attributes is a call on something outside the
  object: the network, the clock, the console, a widget. A running method carries the
  object and the list of the calls it has made so far, in order.
\<close>

datatype label = Lbl_count | Lbl_lat | Lbl_lon

datatype call =
    Get_position "exn option"        \<comment> \<open>\<^verbatim>\<open>self.get_iss_position()\<close> and how it ended\<close>
  | Configure label                  \<comment> \<open>\<^verbatim>\<open>self.lbl_....configure(text=...)\<close>\<close>
  | After callback                   \<comment> \<open>\<^verbatim>\<open>self.root.after(0, callback)\<close>\<close>
  | Sleep int                        \<comment> \<open>\<^verbatim>\<open>sleep(seconds)\<close>\<close>
  | Print exn                        \<comment> \<open>\<^verbatim>\<open>print(f"Error ...: {e}")\<close>\<close>
  | Marker_set_position real real    \<comment> \<open>\<^verbatim>\<open>self.marker.set_position(lat, lon)\<close>\<close>
  | Map_set_position real real       \<comment> \<open>\<^verbatim>\<open>self.map.set_position(lat, lon)\<close>\<close>
  | Map_set_marker real real         \<comment> \<open>\<^verbatim>\<open>self.map.set_marker(lat, lon, ...)\<close>\<close>
  | Map_set_tile_server string       \<comment> \<open>\<^verbatim>\<open>self.map.set_tile_server(url, ...)\<close>\<close>
  | Root_destroy                     \<comment> \<open>\<^verbatim>\<open>self.root.destroy()\<close>\<close>

record proc =
  obj :: tracker
  calls :: "call list"

text \<open>Sequencing: the next statement runs only if the one before returned.\<close>

definition then_do ::
  "exn option \<times> proc \<Rightarrow> (proc \<Rightarrow> exn option \<times> proc) \<Rightarrow> exn option \<times> proc" where
  "then_do m f = (case m of (None, p) \<Rightarrow> f p | (Some e, p) \<Rightarrow> (Some e, p))"

text \<open>
  The toolkit, as far as the program uses it: a command sent to a widget of a live
  application has its effect \<open>f\<close> on what the widgets show; once the root window has been
  destroyed, every widget command (a second \<^verbatim>\<open>destroy\<close> too) raises \<^verbatim>\<open>TclError\<close>.
\<close>

definition widget_call :: "call \<Rightarrow> (tracker \<Rightarrow> tracker) \<Rightarrow> proc \<Rightarrow> exn option \<times> proc" where
  "widget_call c f p =
     (if root_destroyed (obj p) then (Some TclError, p\<lparr>calls := calls p @ [c]\<rparr>)
      else (None, p\<lparr>obj := f (obj p), calls := calls p @ [c]\<rparr>))"

text \<open>Reading \<^verbatim>\<open>self.latitude\<close>, then \<^verbatim>\<open>self.longitude\<close>: \<^verbatim>\<open>AttributeError\<close> for one not
  yet assigned.\<close>

definition read_position :: "tracker \<Rightarrow> exn + real \<times> real" where
  "read_position s =
     (case latitude s of
        None \<Rightarrow> Inl AttributeError
      | Some la \<Rightarrow>
          (case longitude s of None \<Rightarrow> Inl AttributeError | Some lo \<Rightarrow> Inr (la, lo)))"

section \<open>The polling loop\<close>

text \<open>The statements of the \<^verbatim>\<open>try\<close> block of \<^verbatim>\<open>update_iss_position_thread\<close>, one
  definition each.\<close>

definition call_get_position ::
  "(string \<Rightarrow> real option) \<Rightarrow> reply \<Rightarrow> proc \<Rightarrow> exn option \<times> proc" where
  "call_get_position sf r p =
     (case get_iss_position sf r (obj p) of
        (e, s) \<Rightarrow> (e, p\<lparr>obj := s, calls := calls p @ [Get_position e]\<rparr>))"

definition incr_count :: "proc \<Rightarrow> exn option \<times> proc" where
  "incr_count p = (None, p\<lparr>obj := (obj p)\<lparr>count := count (obj p) + 1\<rparr>\<rparr>)"

definition configure_count :: "proc \<Rightarrow> exn option \<times> proc" where
  "configure_count p =
     widget_call (Configure Lbl_count) (\<lambda>s. s\<lparr>lbl_count := count s\<rparr>) p"

definition configure_lat :: "proc \<Rightarrow> exn option \<times> proc" where
  "configure_lat p =
     (case latitude (obj p) of
        None \<Rightarrow> (Some AttributeError, p)
      | Some la \<Rightarrow> widget_call (Configure Lbl_lat) (\<lambda>s. s\<lparr>lbl_lat := la\<rparr>) p)"

definition configure_lon :: "proc \<Rightarrow> exn option \<times> proc" where
  "configure_lon p =
     (case longitude (obj p) of
        None \<Rightarrow> (Some AttributeError, p)
      | Some lo \<Rightarrow> widget_call (Configure Lbl_lon) (\<lambda>s. s\<lparr>lbl_lon := lo\<rparr>) p)"

definition schedule_update :: "proc \<Rightarrow> exn option \<times> proc" where
  "schedule_update p =
     widget_call (After Update_marker_position)
       (\<lambda>s. s\<lparr>after_queue := after_queue s @ [Update_marker_position]\<rparr>) p"

text \<open>\<^verbatim>\<open>sleep(self.update_interval)\<close>; \<^verbatim>\<open>time.sleep\<close> refuses a negative length.\<close>

definition sleep_interval :: "proc \<Rightarrow> exn option \<times> proc" where
  "sleep_interval p =
     (if update_interval (obj p) < 0 then (Some ValueError, p)
      else (None, p\<lparr>calls := calls p @ [Sleep (update_interval (obj p))]\<rparr>))"

text \<open>
  \<^verbatim>\<open>
  try:
      self.get_iss_position()
      self.count += 1
      self.lbl_count.configure(text=f" Count: {self.count} ")
      self.lbl_lat.configure(text=f" Latitude: {self.latitude:.4f} ")
      self.lbl_lon.configure(text=f" Longitude: {self.longitude:.4f} ")
      self.root.after(0, self.update_marker_position)
      sleep(self.update_interval)
  except Exception as e:
      print(f"Error updating ISS position: {e}")
  \<close>
\<close>

definition try_block ::
  "(string \<Rightarrow> real option) \<Rightarrow> reply \<Rightarrow> proc \<Rightarrow> exn option \<times> proc" where
  "try_block sf r p =
     then_do (then_do (then_do (then_do (then_do (then_do
       (call_get_position sf r p)
       incr_count)
       configure_count)
       configure_lat)
       configure_lon)
       schedule_update)
       sleep_interval"

definition loop_body :: "(string \<Rightarrow> real option) \<Rightarrow> reply \<Rightarrow> proc \<Rightarrow> proc" where
  "loop_body sf r p =
     (case try_block sf r p of
        (None, p') \<Rightarrow> p'
      | (Some e, p') \<Rightarrow> p'\<lparr>calls := calls p' @ [Print e]\<rparr>)"

section \<open>The handlers of the main thread\<close>

text \<open>
  \<^verbatim>\<open>
  def update_marker_position(self):
      if self.marker:
          self.marker.set_position(self.latitude, self.longitude)
          self.map.set_position(self.latitude, self.longitude)
      else:
          self.marker = self.map.set_marker(self.latitude, self.longitude, text="ISS",
              marker_color_circle="red", marker_color_outside="red")
  \<close>
\<close>

definition move_marker :: "marker_obj \<Rightarrow> proc \<Rightarrow> exn option \<times> proc" where
  "move_marker m p =
     (case read_position (obj p) of
        Inl e \<Rightarrow> (Some e, p)
      | Inr (la, lo) \<Rightarrow>
          widget_call (Marker_set_position la lo)
            (\<lambda>s. s\<lparr>marker := Some (m\<lparr>position := (la, lo)\<rparr>)\<rparr>) p)"

definition centre_map :: "proc \<Rightarrow> exn option \<times> proc" where
  "centre_map p =
     (case read_position (obj p) of
        Inl e \<Rightarrow> (Some e, p)
      | Inr (la, lo) \<Rightarrow>
          widget_call (Map_set_position la lo) (\<lambda>s. s\<lparr>map_position := (la, lo)\<rparr>) p)"

definition create_marker :: "string \<Rightarrow> proc \<Rightarrow> exn option \<times> proc" where
  "create_marker outside p =
     (case read_position (obj p) of
        Inl e \<Rightarrow> (Some e, p)
      | Inr (la, lo) \<Rightarrow>
          widget_call (Map_set_marker la lo)
            (\<lambda>s. s\<lparr>marker := Some \<lparr>position = (la, lo), color_circle = ''red'',
                                   color_outside = outside\<rparr>\<rparr>) p)"

definition update_marker_position :: "proc \<Rightarrow> exn option \<times> proc" where
  "update_marker_position p =
     (case marker (obj p) of
        Some m \<Rightarrow> then_do (move_marker m p) centre_map
      | None \<Rightarrow> create_marker ''red'' p)"

text \<open>
  \<^verbatim>\<open>
  def quit(self, *arts):
      self.running = False
      self.root.destroy()
  \<close>
  \<open>arts\<close> is the tuple of the extra positional arguments, of any length.
\<close>

definition quit :: "'a list \<Rightarrow> proc \<Rightarrow> exn option \<times> proc" where
  "quit arts p =
     widget_call Root_destroy (\<lambda>s. s\<lparr>root_destroyed := True\<rparr>)
       (p\<lparr>obj := (obj p)\<lparr>running := False\<rparr>\<rparr>)"

text \<open>\<^verbatim>\<open>change_map\<close>: three known names, any other name does nothing. The first call
  leaves \<^verbatim>\<open>max_zoom\<close> to the map widget's default, 19; the other two pass 22.\<close>

definition change_map :: "string \<Rightarrow> proc \<Rightarrow> exn option \<times> proc" where
  "change_map new_map p =
     (if new_map = ''OpenStreetMap'' then
        widget_call (Map_set_tile_server ''https://a.tile.openstreetmap.org/{z}/{x}/{y}.png'')
          (\<lambda>s. s\<lparr>tile_server := ''https://a.tile.openstreetmap.org/{z}/{x}/{y}.png'',
                 map_max_zoom := 19\<rparr>) p
      else if new_map = ''Google normal'' then
        widget_call
          (Map_set_tile_server ''https://mt0.google.com/vt/lyrs=m&hl=en&x={x}&y={y}&z={z}&s=Ga'')
          (\<lambda>s. s\<lparr>tile_server :=
                   ''https://mt0.google.com/vt/lyrs=m&hl=en&x={x}&y={y}&z={z}&s=Ga'',
                 map_max_zoom := 22\<rparr>) p
      else if new_map = ''Google satellite'' then
        widget_call
          (Map_set_tile_server ''https://mt0.google.com/vt/lyrs=s&hl=en&x={x}&y={y}&z={z}&s=Ga'')
          (\<lambda>s. s\<lparr>tile_server :=
                   ''https://mt0.google.com/vt/lyrs=s&hl=en&x={x}&y={y}&z={z}&s=Ga'',
                 map_max_zoom := 22\<rparr>) p
      else (None, p))"

section \<open>Construction and start\<close>

text \<open>
  \<^verbatim>\<open>__init__\<close>, after the window set-up: lines 63 to 68 assign the attributes, line 69
  calls \<^verbatim>\<open>self.get_iss_position()\<close> outside any \<^verbatim>\<open>try\<close>, line 72 builds the widgets and
  line 75 creates the marker. \<open>fresh\<close> is the object at line 69, before any widget
  exists: its widget fields are placeholders, which \<^verbatim>\<open>create_widgets\<close> overwrites (centre,
  zoom, labels) before anything reads them.
\<close>

definition fresh :: "int \<Rightarrow> int \<Rightarrow> int \<Rightarrow> tracker" where
  "fresh window_width window_height interval =
     \<lparr>width = window_width, height = window_height, update_interval = interval,
      running = False, update_thread = False, count = 0, marker = None,
      latitude = None, longitude = None, root_destroyed = False, after_queue = [],
      map_position = (0, 0), map_zoom = 0,
      tile_server = ''https://a.tile.openstreetmap.org/{z}/{x}/{y}.png'',
      map_max_zoom = 19, lbl_lat = 0, lbl_lon = 0, lbl_count = 0\<rparr>"

text \<open>\<^verbatim>\<open>create_widgets\<close> reads \<^verbatim>\<open>self.latitude\<close> and \<^verbatim>\<open>self.longitude\<close> for the centre of the
  map and for the labels; the count label starts at 0.\<close>

definition create_widgets :: "tracker \<Rightarrow> exn option \<times> tracker" where
  "create_widgets s =
     (case read_position s of
        Inl e \<Rightarrow> (Some e, s)
      | Inr (la, lo) \<Rightarrow>
          (None, s\<lparr>map_position := (la, lo), map_zoom := 5,
                   lbl_lat := la, lbl_lon := lo, lbl_count := 0\<rparr>))"

text \<open>
  \<^verbatim>\<open>
  def initialize_marker(self):
      try:
          self.marker = self.map.set_marker(self.latitude, self.longitude, text="ISS",
              marker_color_circle="red", marker_color_outside="darkblue")
      except Exception as e:
          print(f"Error initializing marker: {e}")
          # Fall back to 0,0 if we can't get initial position
          self.marker = self.map.set_marker(0, 0, text="ISS",
              marker_color_circle="red", marker_color_outside="darkblue")
  \<close>
\<close>

definition initialize_marker :: "tracker \<Rightarrow> tracker" where
  "initialize_marker s =
     (case read_position s of
        Inr (la, lo) \<Rightarrow>
          s\<lparr>marker := Some \<lparr>position = (la, lo), color_circle = ''red'',
                             color_outside = ''darkblue''\<rparr>\<rparr>
      | Inl e \<Rightarrow>
          s\<lparr>marker := Some \<lparr>position = (0, 0), color_circle = ''red'',
                             color_outside = ''darkblue''\<rparr>\<rparr>)"

text \<open>The constructor: \<open>Inl e\<close> when exception \<open>e\<close> leaves \<^verbatim>\<open>__init__\<close> (no object is
  made), \<open>Inr s\<close> for the object made.\<close>

definition init ::
  "(string \<Rightarrow> real option) \<Rightarrow> int \<Rightarrow> int \<Rightarrow> int \<Rightarrow> reply \<Rightarrow> exn + tracker" where
  "init sf window_width window_height interval r =
     (case get_iss_position sf r (fresh window_width window_height interval) of
        (Some e, s) \<Rightarrow> Inl e
      | (None, s) \<Rightarrow>
          (case create_widgets s of
             (Some e, s') \<Rightarrow> Inl e
           | (None, s') \<Rightarrow> Inr (initialize_marker s')))"

text \<open>\<^verbatim>\<open>run\<close> sets the flag and starts the thread, then enters the main loop.\<close>

definition run :: "tracker \<Rightarrow> tracker" where
  "run s = s\<lparr>running := True, update_thread := True\<rparr>"

section \<open>The two threads together\<close>

text \<open>
  The worker thread executes \<^verbatim>\<open>while self.running:\<close> around the \<^verbatim>\<open>try\<close> statement; the
  main thread executes the handlers that the main loop dispatches. A run of the program is
  a list of steps. \<open>Iterate r\<close>: the worker tests the flag and, if it is set, executes the
  loop body once, its request meeting reply \<open>r\<close>; if the flag is clear the loop is left
  and the thread ends. \<open>Main ev\<close>: the main loop dispatches event \<open>ev\<close>; an exception in a
  handler is reported by Tk and the main loop goes on; after \<^verbatim>\<open>destroy\<close> the main loop has
  returned and dispatches nothing.
\<close>

datatype loop_state = Looping | Exited

datatype key_event = KeyPress

datatype ui_event =
    Close_button          \<comment> \<open>\<^verbatim>\<open>WM_DELETE_WINDOW\<close>: \<^verbatim>\<open>self.quit()\<close>\<close>
  | Escape_key            \<comment> \<open>the binding of Escape: \<^verbatim>\<open>self.quit(event)\<close>\<close>
  | Timer                 \<comment> \<open>the oldest callback queued by \<^verbatim>\<open>after\<close> is due\<close>
  | Menu_select string    \<comment> \<open>the option menu: \<^verbatim>\<open>self.change_map(name)\<close>\<close>

datatype step = Iterate reply | Main ui_event

record sys =
  self :: tracker
  worker_calls :: "call list"
  main_calls :: "call list"
  loop :: loop_state

definition on_worker :: "(proc \<Rightarrow> proc) \<Rightarrow> sys \<Rightarrow> sys" where
  "on_worker f y =
     (let p = f \<lparr>obj = self y, calls = []\<rparr>
      in y\<lparr>self := obj p, worker_calls := worker_calls y @ calls p\<rparr>)"

definition on_main :: "(proc \<Rightarrow> exn option \<times> proc) \<Rightarrow> sys \<Rightarrow> sys" where
  "on_main f y =
     (let p = snd (f \<lparr>obj = self y, calls = []\<rparr>)
      in y\<lparr>self := obj p, main_calls := main_calls y @ calls p\<rparr>)"

fun dispatch :: "ui_event \<Rightarrow> sys \<Rightarrow> sys" where
  "dispatch Close_button y = on_main (quit ([] :: key_event list)) y"
| "dispatch Escape_key y = on_main (quit [KeyPress]) y"
| "dispatch Timer y =
     (case after_queue (self y) of
        [] \<Rightarrow> y
      | Update_marker_position # q \<Rightarrow>
          on_main update_marker_position (y\<lparr>self := (self y)\<lparr>after_queue := q\<rparr>\<rparr>))"
| "dispatch (Menu_select name) y = on_main (change_map name) y"

fun sys_step :: "(string \<Rightarrow> real option) \<Rightarrow> sys \<Rightarrow> step \<Rightarrow> sys" where
  "sys_step sf y (Iterate r) =
     (if loop y = Exited then y
      else if running (self y) then on_worker (loop_body sf r) y
      else y\<lparr>loop := Exited\<rparr>)"
| "sys_step sf y (Main ev) = (if root_destroyed (self y) then y else dispatch ev y)"

fun sys_run :: "(string \<Rightarrow> real option) \<Rightarrow> sys \<Rightarrow> step list \<Rightarrow> sys" where
  "sys_run sf y [] = y"
| "sys_run sf y (x # xs) = sys_run sf (sys_step sf y x) xs"

text \<open>The program just after \<^verbatim>\<open>run\<close> has started the thread.\<close>

definition started :: "tracker \<Rightarrow> sys" where
  "started s = \<lparr>self = run s, worker_calls = [], main_calls = [], loop = Looping\<rparr>"

section \<open>The two attributes under interleaving\<close>

text \<open>
  \<^verbatim>\<open>self.latitude\<close> and \<^verbatim>\<open>self.longitude\<close> are plain attributes, written by the worker
  thread in \<^verbatim>\<open>get_iss_position\<close> (line 115, then line 116) and read by the main thread in
  \<^verbatim>\<open>update_marker_position\<close> (line 146: first \<^verbatim>\<open>self.latitude\<close>, then \<^verbatim>\<open>self.longitude\<close>,
  then the call of \<^verbatim>\<open>set_position\<close> with the two values; line 147 and line 151 load the
  pair again in the same order). No lock is taken anywhere in the program, and the
  interpreter may switch threads between any two of these loads and stores.

  What a call of \<^verbatim>\<open>get_iss_position\<close> stores depends on where it ends: it returns after
  both assignments, or it raises at line 116 with the latitude assigned, or it raises
  before line 115 with nothing assigned. \<open>stores\<close> reads this off the method itself, run
  on an object that has neither attribute (lemma \<open>get_iss_position_perform\<close>: on every
  object the call does what \<open>perform\<close> does).
\<close>

datatype fetch =
    Stores_both real real     \<comment> \<open>line 115 and line 116 run\<close>
  | Stores_latitude real      \<comment> \<open>line 115 runs, line 116 raises\<close>
  | Stores_nothing            \<comment> \<open>an exception before line 115\<close>

definition stores :: "(string \<Rightarrow> real option) \<Rightarrow> reply \<Rightarrow> fetch" where
  "stores sf r =
     (case get_iss_position sf r (fresh 0 0 0) of
        (e, s) \<Rightarrow>
          (case latitude s of
             None \<Rightarrow> Stores_nothing
           | Some la \<Rightarrow>
               (case longitude s of
                  None \<Rightarrow> Stores_latitude la
                | Some lo \<Rightarrow> Stores_both la lo)))"

fun perform :: "fetch \<Rightarrow> tracker \<Rightarrow> tracker" where
  "perform (Stores_both la lo) s = (s\<lparr>latitude := Some la\<rparr>)\<lparr>longitude := Some lo\<rparr>"
| "perform (Stores_latitude la) s = s\<lparr>latitude := Some la\<rparr>"
| "perform Stores_nothing s = s"

text \<open>
  The machine has one step per load or store and is run against a schedule that names
  the thread to move next. Its state:

  \<^item> \<open>lat_attr\<close>, \<open>lon_attr\<close>: the two attributes;
  \<^item> \<open>pending\<close>: the fetches to come; \<open>begun\<close>: the fetches begun so far, the latest
    first, so that the fetch in progress or last ended has the number \<open>length begun\<close>
    (the constructor's fetch has the number 0);
  \<^item> \<open>half_written = Some lo\<close>: the worker is between line 115 and line 116, with \<open>lo\<close>
    still to store;
  \<^item> \<open>lat_from\<close>, \<open>lon_from\<close>: the number of the fetch that stored the present latitude,
    and the present longitude; they are written with the attribute and read by no step
    other than a load, which copies them into the snapshot;
  \<^item> \<open>half_read = Some (la, i)\<close>: the main thread has loaded the latitude \<open>la\<close>, stored by
    fetch \<open>i\<close>, and not yet the longitude;
  \<^item> \<open>seen\<close>: the snapshots so far, each the pair passed to \<^verbatim>\<open>set_position\<close> with the
    numbers of the fetches that stored its latitude and its longitude.
\<close>

datatype thread = Worker | UI

record shot =
  shot_lat :: real
  shot_lon :: real
  lat_fetch :: nat
  lon_fetch :: nat

record conc =
  lat_attr :: real
  lon_attr :: real
  lat_from :: nat
  lon_from :: nat
  begun :: "fetch list"
  pending :: "fetch list"
  half_written :: "real option"
  snapshots_left :: nat
  half_read :: "(real \<times> nat) option"
  seen :: "shot list"

text \<open>The first step of a fetch that has just been entered in \<open>begun\<close>: line 115, if the
  fetch gets that far.\<close>

fun first_store :: "fetch \<Rightarrow> conc \<Rightarrow> conc" where
  "first_store (Stores_both la lo) c =
     c\<lparr>lat_attr := la, lat_from := length (begun c), half_written := Some lo\<rparr>"
| "first_store (Stores_latitude la) c = c\<lparr>lat_attr := la, lat_from := length (begun c)\<rparr>"
| "first_store Stores_nothing c = c"

fun conc_step :: "conc \<Rightarrow> thread \<Rightarrow> conc" where
  "conc_step c Worker =
     (case half_written c of
        Some lo \<Rightarrow> c\<lparr>lon_attr := lo, lon_from := length (begun c), half_written := None\<rparr>
      | None \<Rightarrow>
          (case pending c of
             [] \<Rightarrow> c
           | f # fs \<Rightarrow> first_store f (c\<lparr>begun := f # begun c, pending := fs\<rparr>)))"
| "conc_step c UI =
     (case half_read c of
        Some (la, i) \<Rightarrow>
          c\<lparr>seen := seen c @ [\<lparr>shot_lat = la, shot_lon = lon_attr c,
                                 lat_fetch = i, lon_fetch = lon_from c\<rparr>],
            half_read := None\<rparr>
      | None \<Rightarrow>
          (case snapshots_left c of
             0 \<Rightarrow> c
           | Suc n \<Rightarrow> c\<lparr>half_read := Some (lat_attr c, lat_from c), snapshots_left := n\<rparr>))"

fun conc_run :: "conc \<Rightarrow> thread list \<Rightarrow> conc" where
  "conc_run c [] = c"
| "conc_run c (t # ts) = conc_run (conc_step c t) ts"

text \<open>The start: the position \<open>(la, lo)\<close> that the constructor stored, the fetches \<open>fs\<close>
  to come and \<open>n\<close> snapshots to take.\<close>

definition conc_init :: "real \<Rightarrow> real \<Rightarrow> fetch list \<Rightarrow> nat \<Rightarrow> conc" where
  "conc_init la lo fs n =
     \<lparr>lat_attr = la, lon_attr = lo, lat_from = 0, lon_from = 0, begun = [], pending = fs,
      half_written = None, snapshots_left = n, half_read = None, seen = []\<rparr>"

text \<open>
  Of the fetches begun (the latest first), whether the latest that stored a latitude
  also stored its longitude, or none has stored a latitude; and the pair of the latest
  that stored both, or \<open>p\<close> when there is none.
\<close>

fun whole :: "fetch list \<Rightarrow> bool" where
  "whole [] = True"
| "whole (Stores_both la lo # fs) = True"
| "whole (Stores_latitude la # fs) = False"
| "whole (Stores_nothing # fs) = whole fs"

fun latest_pair :: "real \<times> real \<Rightarrow> fetch list \<Rightarrow> real \<times> real" where
  "latest_pair p [] = p"
| "latest_pair p (Stores_both la lo # fs) = (la, lo)"
| "latest_pair p (Stores_latitude la # fs) = latest_pair p fs"
| "latest_pair p (Stores_nothing # fs) = latest_pair p fs"

text \<open>What the numbers and the attributes have to do with the fetches begun; \<open>p\<close> is the
  constructor's pair.\<close>

definition conc_inv :: "real \<times> real \<Rightarrow> conc \<Rightarrow> bool" where
  "conc_inv p c \<longleftrightarrow>
     lon_from c \<le> lat_from c \<and> lat_from c \<le> length (begun c) \<and>
     (case half_written c of
        Some lo \<Rightarrow>
          (\<exists>rest. begun c = Stores_both (lat_attr c) lo # rest) \<and>
          lat_from c = length (begun c) \<and> lon_from c < length (begun c)
      | None \<Rightarrow>
          (lat_from c = lon_from c) = whole (begun c) \<and>
          (whole (begun c) \<longrightarrow> (lat_attr c, lon_attr c) = latest_pair p (begun c)))"

section \<open>Example inputs\<close>

text \<open>A reply with both fields, one with the latitude only, and the object that the
  constructor makes with the default arguments when its request meets the first.\<close>

definition full_reply :: "real \<Rightarrow> real \<Rightarrow> reply" where
  "full_reply la lo = Reply 200 (JsonDict [''latitude'' \<mapsto> JNum la, ''longitude'' \<mapsto> JNum lo])"

definition latitude_only_reply :: "real \<Rightarrow> reply" where
  "latitude_only_reply la = Reply 200 (JsonDict [''latitude'' \<mapsto> JNum la])"

definition no_strings :: "string \<Rightarrow> real option" where
  "no_strings t = None"

definition demo :: tracker where
  "demo =
     \<lparr>width = 2048, height = 1536, update_interval = 10,
      running = False, update_thread = False, count = 0,
      marker = Some \<lparr>position = (10, 20), color_circle = ''red'',
                      color_outside = ''darkblue''\<rparr>,
      latitude = Some 10, longitude = Some 20, root_destroyed = False, after_queue = [],
      map_position = (10, 20), map_zoom = 5,
      tile_server = ''https://a.tile.openstreetmap.org/{z}/{x}/{y}.png'',
      map_max_zoom = 19, lbl_lat = 10, lbl_lon = 20, lbl_count = 0\<rparr>"

text \<open>The interleaving machine with the position (10, 20) stored, two snapshots to take
  and two fetches to come, the first storing (11, 21), the second storing the latitude 30
  and raising.\<close>

definition two_fetches :: conc where
  "two_fetches = conc_init 10 20 [Stores_both 11 21, Stores_latitude 30] 2"

text \<open>Whether a request that meets reply \<open>r\<close> ends in a successful fetch. The outcome of
  \<^verbatim>\<open>get_iss_position\<close> does not depend on the object (lemma \<open>fetch_outcome_any_object\<close>).\<close>

definition fetch_ok :: "(string \<Rightarrow> real option) \<Rightarrow> reply \<Rightarrow> bool" where
  "fetch_ok sf r \<longleftrightarrow> fst (get_iss_position sf r (fresh 0 0 0)) = None"

text \<open>The calls that act on the marker or on the map.\<close>

fun touches_map :: "call \<Rightarrow> bool" where
  "touches_map (Marker_set_position la lo) = True"
| "touches_map (Map_set_position la lo) = True"
| "touches_map (Map_set_marker la lo) = True"
| "touches_map (Map_set_tile_server u) = True"
| "touches_map c = False"

text \<open>The events that call \<^verbatim>\<open>quit\<close>.\<close>

fun is_quit :: "step \<Rightarrow> bool" where
  "is_quit (Main Close_button) = True"
| "is_quit (Main Escape_key) = True"
| "is_quit x = False"

text \<open>The calls of \<^verbatim>\<open>get_iss_position\<close>, and the successful ones among a list of calls.\<close>

fun is_fetch :: "call \<Rightarrow> bool" where
  "is_fetch (Get_position e) = True"
| "is_fetch c = False"

definition successes :: "call list \<Rightarrow> nat" where
  "successes cs = length (filter (\<lambda>c. c = Get_position None) cs)"

section \<open>Basic facts\<close>

lemma init_demo: "init sf 2048 1536 10 (full_reply 10 20) = Inr demo"
  by (simp add: init_def get_iss_position_def full_reply_def raise_for_status_def dict_get_def
      fresh_def create_widgets_def read_position_def initialize_marker_def demo_def)

lemmas stmt_defs = call_get_position_def incr_count_def configure_count_def configure_lat_def
  configure_lon_def schedule_update_def sleep_interval_def widget_call_def

lemma fetch_outcome_any_object:
  "fst (get_iss_position sf r s) = fst (get_iss_position sf r s')"
  by (simp add: get_iss_position_def split: reply.splits body.splits sum.splits)

lemma get_iss_position_running: "running (snd (get_iss_position sf r s)) = running s"
  by (simp add: get_iss_position_def split: reply.splits body.splits sum.splits)

lemma get_iss_position_count: "count (snd (get_iss_position sf r s)) = count s"
  by (simp add: get_iss_position_def split: reply.splits body.splits sum.splits)

lemma get_iss_position_ok_position:
  "fst (get_iss_position sf r s) = None \<Longrightarrow>
   \<exists>la lo. snd (get_iss_position sf r s) = s\<lparr>latitude := Some la, longitude := Some lo\<rparr>"
  by (auto simp add: get_iss_position_def split: reply.splits body.splits sum.splits if_splits)

text \<open>A fetch that raises leaves the stored longitude as it was; the latitude is another
  matter.\<close>

lemma failed_fetch_longitude_kept:
  "fst (get_iss_position sf r s) = Some e \<Longrightarrow>
   longitude (snd (get_iss_position sf r s)) = longitude s"
  by (auto simp add: get_iss_position_def split: reply.splits body.splits sum.splits if_splits)

text \<open>An exception of the start-up fetch is the exception of the constructor.\<close>

lemma init_raises_what_fetch_raises:
  "fst (get_iss_position sf r (fresh window_width window_height interval)) = Some e \<Longrightarrow>
   init sf window_width window_height interval r = Inl e"
  by (cases "get_iss_position sf r (fresh window_width window_height interval)")
     (simp add: init_def)

text \<open>A constructed tracker has had a successful fetch, and its map and marker are at
  the fetched position: after a failed fetch no tracker is constructed, so the \<^verbatim>\<open>except\<close>
  branch of \<^verbatim>\<open>initialize_marker\<close> is not the path taken then.\<close>

lemma init_position:
  "init sf window_width window_height interval r = Inr s \<Longrightarrow>
   fetch_ok sf r \<and>
   (\<exists>la lo. latitude s = Some la \<and> longitude s = Some lo \<and> map_position s = (la, lo) \<and>
      marker s = Some \<lparr>position = (la, lo), color_circle = ''red'',
                        color_outside = ''darkblue''\<rparr>)"
proof -
  assume a: "init sf window_width window_height interval r = Inr s"
  let ?s0 = "fresh window_width window_height interval"
  from a have ok: "fst (get_iss_position sf r ?s0) = None"
    by (cases "get_iss_position sf r ?s0") (auto simp add: init_def split: option.splits)
  from get_iss_position_ok_position [OF ok] obtain la lo where
    s1: "snd (get_iss_position sf r ?s0) = ?s0\<lparr>latitude := Some la, longitude := Some lo\<rparr>"
    by blast
  from ok s1 have "get_iss_position sf r ?s0
      = (None, ?s0\<lparr>latitude := Some la, longitude := Some lo\<rparr>)"
    by (cases "get_iss_position sf r ?s0") simp
  with a have "s = initialize_marker
      (snd (create_widgets (?s0\<lparr>latitude := Some la, longitude := Some lo\<rparr>)))"
    by (simp add: init_def create_widgets_def read_position_def)
  then have "latitude s = Some la \<and> longitude s = Some lo \<and> map_position s = (la, lo) \<and>
      marker s = Some \<lparr>position = (la, lo), color_circle = ''red'',
                        color_outside = ''darkblue''\<rparr>"
    by (simp add: create_widgets_def read_position_def initialize_marker_def)
  moreover from ok have "fetch_ok sf r"
    using fetch_outcome_any_object [of sf r ?s0 "fresh 0 0 0"] by (simp add: fetch_ok_def)
  ultimately show ?thesis by blast
qed

text \<open>A successful fetch is two assignments, one after the other.\<close>

lemma get_iss_position_full_reply:
  "get_iss_position sf (full_reply a b) s
     = (None, (s\<lparr>latitude := Some a\<rparr>)\<lparr>longitude := Some b\<rparr>)"
  by (simp add: get_iss_position_def full_reply_def raise_for_status_def dict_get_def)

lemma try_block_running: "running (obj (snd (try_block sf r p))) = running (obj p)"
  by (cases "get_iss_position sf r (obj p)")
     (use get_iss_position_running [of sf r "obj p"] in
      \<open>auto simp add: try_block_def then_do_def stmt_defs
            split: option.splits prod.splits if_splits\<close>)

lemma loop_body_running: "running (obj (loop_body sf r p)) = running (obj p)"
  using try_block_running [of sf r p]
  by (auto simp add: loop_body_def split: prod.splits option.splits)

text \<open>An iteration whose fetch raises makes two calls, the request and the \<^verbatim>\<open>print\<close> of the
  handler: the \<^verbatim>\<open>sleep\<close> is the last statement of the \<^verbatim>\<open>try\<close> block and is skipped with
  the rest of it.\<close>

lemma loop_body_failed:
  "fst (get_iss_position sf r (obj p)) = Some e \<Longrightarrow>
   loop_body sf r p
     = p\<lparr>obj := snd (get_iss_position sf r (obj p)),
          calls := calls p @ [Get_position (Some e), Print e]\<rparr>"
  by (cases "get_iss_position sf r (obj p)")
     (simp add: loop_body_def try_block_def call_get_position_def then_do_def)

lemma loop_body_count:
  "count (obj (loop_body sf r p))
     = count (obj p) + (if fst (get_iss_position sf r (obj p)) = None then 1 else 0)"
  by (cases "get_iss_position sf r (obj p)")
     (use get_iss_position_count [of sf r "obj p"] in
      \<open>auto simp add: loop_body_def try_block_def then_do_def stmt_defs
            split: option.splits prod.splits if_splits\<close>)

lemma loop_body_successes:
  "successes (calls (loop_body sf r p))
     = successes (calls p) + (if fst (get_iss_position sf r (obj p)) = None then 1 else 0)"
  by (cases "get_iss_position sf r (obj p)")
     (auto simp add: successes_def loop_body_def try_block_def then_do_def stmt_defs
           split: option.splits prod.splits if_splits)

lemma loop_body_fetches:
  "length (filter is_fetch (calls (loop_body sf r p))) = Suc (length (filter is_fetch (calls p)))"
  by (cases "get_iss_position sf r (obj p)")
     (auto simp add: loop_body_def try_block_def then_do_def stmt_defs
           split: option.splits prod.splits if_splits)

lemma loop_body_no_map_call:
  "list_all (\<lambda>c. \<not> touches_map c) (calls p) \<Longrightarrow>
   list_all (\<lambda>c. \<not> touches_map c) (calls (loop_body sf r p))"
  by (cases "get_iss_position sf r (obj p)")
     (auto simp add: loop_body_def try_block_def then_do_def stmt_defs
           split: option.splits prod.splits if_splits)

lemma loop_body_marker:
  "marker (obj (loop_body sf r p)) = marker (obj p) \<and>
   map_position (obj (loop_body sf r p)) = map_position (obj p)"
  by (cases "get_iss_position sf r (obj p)")
     (auto simp add: loop_body_def try_block_def then_do_def stmt_defs get_iss_position_def
           split: option.splits prod.splits if_splits reply.splits body.splits sum.splits)

lemma loop_body_success:
  assumes "fst (get_iss_position sf r (obj p)) = None"
    and "\<not> root_destroyed (obj p)" and "0 \<le> update_interval (obj p)"
  shows "calls (loop_body sf r p)
           = calls p @ [Get_position None, Configure Lbl_count, Configure Lbl_lat,
                        Configure Lbl_lon, After Update_marker_position,
                        Sleep (update_interval (obj p))]"
    and "after_queue (obj (loop_body sf r p)) = after_queue (obj p) @ [Update_marker_position]"
    and "lbl_count (obj (loop_body sf r p)) = count (obj p) + 1"
    and "Some (lbl_lat (obj (loop_body sf r p))) = latitude (obj (loop_body sf r p))"
    and "Some (lbl_lon (obj (loop_body sf r p))) = longitude (obj (loop_body sf r p))"
  using assms
  by (auto simp add: loop_body_def try_block_def then_do_def stmt_defs get_iss_position_def
            split: option.splits prod.splits if_splits reply.splits body.splits sum.splits)

lemma quit_running: "\<not> running (obj (snd (quit arts p)))"
  by (simp add: quit_def widget_call_def)

lemma quit_count: "count (obj (snd (quit arts p))) = count (obj p)"
  by (simp add: quit_def widget_call_def)

lemma update_marker_position_frame:
  "running (obj (snd (update_marker_position p))) = running (obj p) \<and>
   count (obj (snd (update_marker_position p))) = count (obj p)"
  by (auto simp add: update_marker_position_def move_marker_def centre_map_def create_marker_def
      then_do_def widget_call_def read_position_def split: option.splits sum.splits prod.splits)

lemma change_map_frame:
  "running (obj (snd (change_map n p))) = running (obj p) \<and>
   count (obj (snd (change_map n p))) = count (obj p)"
  by (simp add: change_map_def widget_call_def)

lemma dispatch_frame:
  "count (self (dispatch ev y)) = count (self y) \<and> worker_calls (dispatch ev y) = worker_calls y
   \<and> loop (dispatch ev y) = loop y
   \<and> (\<not> is_quit (Main ev) \<longrightarrow> running (self (dispatch ev y)) = running (self y))"
proof (cases ev)
  case Close_button
  then show ?thesis by (simp add: on_main_def Let_def quit_count)
next
  case Escape_key
  then show ?thesis by (simp add: on_main_def Let_def quit_count)
next
  case Timer
  then show ?thesis
    using update_marker_position_frame
    by (auto simp add: on_main_def Let_def split: list.splits callback.splits)
next
  case (Menu_select n)
  then show ?thesis by (simp add: on_main_def Let_def change_map_frame)
qed

lemma sys_step_frame:
  "int (successes (worker_calls y)) + count (self (sys_step sf y x))
     = count (self y) + int (successes (worker_calls (sys_step sf y x)))"
proof (cases x)
  case (Iterate r)
  then show ?thesis
    using loop_body_count [of sf r "\<lparr>obj = self y, calls = []\<rparr>"]
      loop_body_successes [of sf r "\<lparr>obj = self y, calls = []\<rparr>"]
    by (simp add: on_worker_def Let_def successes_def)
next
  case (Main ev)
  then show ?thesis by (simp add: dispatch_frame)
qed

lemma sys_run_count:
  "int (successes (worker_calls y)) + count (self (sys_run sf y xs))
     = count (self y) + int (successes (worker_calls (sys_run sf y xs)))"
proof (induction xs arbitrary: y)
  case Nil
  then show ?case by simp
next
  case (Cons x xs)
  from Cons.IH [of "sys_step sf y x"] sys_step_frame [of y sf x]
  show ?case by simp
qed

lemma sys_step_iterate_running:
  "loop y = Looping \<Longrightarrow> running (self y) \<Longrightarrow>
   loop (sys_step sf y (Iterate r)) = Looping \<and> running (self (sys_step sf y (Iterate r)))
   \<and> length (filter is_fetch (worker_calls (sys_step sf y (Iterate r))))
        = Suc (length (filter is_fetch (worker_calls y)))
   \<and> count (self (sys_step sf y (Iterate r))) = count (self y) + (if fetch_ok sf r then 1 else 0)"
  using loop_body_running [of sf r "\<lparr>obj = self y, calls = []\<rparr>"]
    loop_body_fetches [of sf r "\<lparr>obj = self y, calls = []\<rparr>"]
    loop_body_count [of sf r "\<lparr>obj = self y, calls = []\<rparr>"]
    fetch_outcome_any_object [of sf r "self y" "fresh 0 0 0"]
  by (simp add: on_worker_def Let_def fetch_ok_def)

lemma sys_run_iterates:
  "loop y = Looping \<Longrightarrow> running (self y) \<Longrightarrow>
   loop (sys_run sf y (map Iterate rs)) = Looping \<and> running (self (sys_run sf y (map Iterate rs)))
   \<and> length (filter is_fetch (worker_calls (sys_run sf y (map Iterate rs))))
        = length (filter is_fetch (worker_calls y)) + length rs
   \<and> count (self (sys_run sf y (map Iterate rs)))
        = count (self y) + int (length (filter (fetch_ok sf) rs))"
proof (induction rs arbitrary: y)
  case Nil
  then show ?case by simp
next
  case (Cons r rs)
  note st = sys_step_iterate_running [OF Cons.prems, of sf r]
  from st have "loop (sys_step sf y (Iterate r)) = Looping"
    and "running (self (sys_step sf y (Iterate r)))" by simp_all
  from Cons.IH [OF this] st show ?case by simp
qed

lemma sys_step_stop:
  "\<not> is_quit x \<Longrightarrow>
   running (self (sys_step sf y x)) = running (self y) \<and>
   (loop (sys_step sf y x) = Exited \<longrightarrow> loop y = Exited \<or> \<not> running (self y))"
proof (cases x)
  case (Iterate r)
  then show ?thesis
    using loop_body_running [of sf r "\<lparr>obj = self y, calls = []\<rparr>"]
    by (simp add: on_worker_def Let_def)
next
  case (Main ev)
  assume "\<not> is_quit x"
  with Main show ?thesis using dispatch_frame [of ev y] by simp
qed

lemma sys_run_stop:
  "loop (sys_run sf y xs) = Exited \<or> \<not> running (self (sys_run sf y xs)) \<Longrightarrow>
   loop y = Exited \<or> \<not> running (self y) \<or> (\<exists>x \<in> set xs. is_quit x)"
proof (induction xs arbitrary: y)
  case Nil
  then show ?case by simp
next
  case (Cons x xs)
  show ?case
  proof (cases "is_quit x")
    case True
    then show ?thesis by simp
  next
    case False
    from Cons.IH [OF Cons.prems [simplified]]
    have "loop (sys_step sf y x) = Exited \<or> \<not> running (self (sys_step sf y x))
          \<or> (\<exists>x \<in> set xs. is_quit x)" .
    with sys_step_stop [OF False, of sf y] show ?thesis by auto
  qed
qed

lemma sys_run_append: "sys_run sf y (xs @ zs) = sys_run sf (sys_run sf y xs) zs"
  by (induction xs arbitrary: y) simp_all

lemma loop_body_root: "root_destroyed (obj (loop_body sf r p)) = root_destroyed (obj p)"
  by (cases "get_iss_position sf r (obj p)")
     (auto simp add: loop_body_def try_block_def then_do_def stmt_defs get_iss_position_def
           split: option.splits prod.splits if_splits reply.splits body.splits sum.splits)

lemma sys_run_iterates_root:
  "root_destroyed (self (sys_run sf y (map Iterate rs))) = root_destroyed (self y)"
proof (induction rs arbitrary: y)
  case Nil
  then show ?case by simp
next
  case (Cons r rs)
  have "root_destroyed (self (sys_step sf y (Iterate r))) = root_destroyed (self y)"
    using loop_body_root [of sf r "\<lparr>obj = self y, calls = []\<rparr>"]
    by (simp add: on_worker_def Let_def)
  with Cons.IH [of "sys_step sf y (Iterate r)"] show ?case by simp
qed

lemma quit_then_iterate_exits:
  assumes "loop y = Looping" and "\<not> root_destroyed (self y)"
  shows "loop (sys_run sf y [Main Close_button, Iterate r]) = Exited"
  using assms by (simp add: on_main_def Let_def quit_def widget_call_def)

lemma sys_step_no_map_call:
  "list_all (\<lambda>c. \<not> touches_map c) (worker_calls y) \<Longrightarrow>
   list_all (\<lambda>c. \<not> touches_map c) (worker_calls (sys_step sf y x))"
proof (cases x)
  case (Iterate r)
  assume "list_all (\<lambda>c. \<not> touches_map c) (worker_calls y)"
  with Iterate show ?thesis
    using loop_body_no_map_call [of "\<lparr>obj = self y, calls = []\<rparr>" sf r]
    by (simp add: on_worker_def Let_def)
next
  case (Main ev)
  assume "list_all (\<lambda>c. \<not> touches_map c) (worker_calls y)"
  with Main show ?thesis by (simp add: dispatch_frame)
qed

lemma sys_run_no_map_call:
  "list_all (\<lambda>c. \<not> touches_map c) (worker_calls y) \<Longrightarrow>
   list_all (\<lambda>c. \<not> touches_map c) (worker_calls (sys_run sf y xs))"
  by (induction xs arbitrary: y) (simp_all add: sys_step_no_map_call)

lemmas run_defs = started_def run_def on_worker_def on_main_def loop_body_def try_block_def
  then_do_def get_iss_position_def full_reply_def raise_for_status_def dict_get_def demo_def
  stmt_defs quit_def

section \<open>The fetch\<close>

text \<open>
  Claim C10. A call of \<^verbatim>\<open>get_iss_position\<close> changes no attribute of the tracker other than
  \<open>latitude\<close> and \<open>longitude\<close>: the object after the call is the object before it with
  these two fields replaced, so the sample count, the running flag, the update interval
  and the marker reference are what they were. This holds for every call, hence for every
  successful one.
\<close>

theorem get_iss_position_frame:
  "snd (get_iss_position sf r s)
     = s\<lparr>latitude := latitude (snd (get_iss_position sf r s)),
          longitude := longitude (snd (get_iss_position sf r s))\<rparr>
   \<and> count (snd (get_iss_position sf r s)) = count s
   \<and> running (snd (get_iss_position sf r s)) = running s
   \<and> update_interval (snd (get_iss_position sf r s)) = update_interval s
   \<and> marker (snd (get_iss_position sf r s)) = marker s"
  by (simp add: get_iss_position_def split: reply.splits body.splits sum.splits)

text \<open>
  Claim C3 says that a failed fetch leaves both stored coordinates unchanged, also when
  the latitude of the reply parses and its longitude is missing. The code assigns
  \<^verbatim>\<open>self.latitude\<close> before it evaluates \<^verbatim>\<open>float(position.get("longitude"))\<close>. With the
  position (10, 20) stored and a reply \<^verbatim>\<open>{"latitude": 30}\<close>, the call raises
  \<^verbatim>\<open>TypeError\<close> and the stored position is (30, 20); the loop's handler only prints, so the
  object keeps that position after the iteration.
\<close>

theorem failed_fetch_keeps_new_latitude:
  "get_iss_position no_strings (latitude_only_reply 30) demo
     = (Some TypeError, demo\<lparr>latitude := Some 30\<rparr>)
   \<and> latitude demo = Some 10 \<and> longitude demo = Some 20
   \<and> latitude (self (sys_run no_strings (started demo) [Iterate (latitude_only_reply 30)]))
       = Some 30
   \<and> longitude (self (sys_run no_strings (started demo) [Iterate (latitude_only_reply 30)]))
       = Some 20"
  by (simp add: get_iss_position_def latitude_only_reply_def raise_for_status_def
      dict_get_def demo_def started_def run_def on_worker_def loop_body_def try_block_def
      call_get_position_def then_do_def)

section \<open>Construction\<close>

text \<open>
  Claim C2 says that a failed start-up fetch does not leave the constructor and that the
  position falls back to (0, 0). The fall-back of the code is the \<^verbatim>\<open>except\<close> branch of
  \<^verbatim>\<open>initialize_marker\<close>, but the fetch itself is called from \<^verbatim>\<open>__init__\<close> outside any
  \<^verbatim>\<open>try\<close>: when the request fails, the exception leaves the constructor and no tracker
  is made, whatever the arguments.
\<close>

theorem init_failed_fetch_raises:
  "init sf window_width window_height interval NoReply = Inl ConnectionError"
  by (simp add: init_def get_iss_position_def)

section \<open>The polling loop: calls of one iteration\<close>

text \<open>
  Claim C4 says that an iteration whose fetch fails still sleeps for \<^verbatim>\<open>update_interval\<close>
  before the next fetch. In the code the \<^verbatim>\<open>sleep\<close> is inside the \<^verbatim>\<open>try\<close> block, after the
  fetch: two iterations of the started default tracker, the first request unanswered,
  the second answered, make the calls below, with no \<open>Sleep\<close> between the failed request
  and the next one.
\<close>

theorem no_sleep_after_failed_fetch:
  "worker_calls (sys_run sf (started demo) [Iterate NoReply, Iterate (full_reply 11 21)])
     = [Get_position (Some ConnectionError), Print ConnectionError,
        Get_position None, Configure Lbl_count, Configure Lbl_lat, Configure Lbl_lon,
        After Update_marker_position, Sleep 10]"
  by (simp add: started_def run_def on_worker_def loop_body_def try_block_def then_do_def
      get_iss_position_def full_reply_def raise_for_status_def dict_get_def demo_def
      stmt_defs)

section \<open>The polling loop: runs\<close>

text \<open>
  Claim C5. No fetch error ends the polling loop. From the started tracker, for every
  list of replies (failed or not) the loop makes one request per reply and is still
  looping afterwards; in every run of the two threads, the loop can have been left only
  if the run contains an event that calls \<^verbatim>\<open>quit\<close> (the close button or the Escape key);
  and after such an event on a live window the next test of the flag does leave the loop.
\<close>

theorem poll_loop_stops_only_on_quit:
  "loop (sys_run sf (started s) (map Iterate rs)) = Looping
   \<and> length (filter is_fetch (worker_calls (sys_run sf (started s) (map Iterate rs))))
        = length rs
   \<and> (loop (sys_run sf (started s) xs) = Exited \<longrightarrow> (\<exists>x \<in> set xs. is_quit x))
   \<and> (\<not> root_destroyed s \<longrightarrow>
        loop (sys_run sf (started s) (map Iterate rs @ [Main Close_button, Iterate r]))
          = Exited)"
proof -
  have start: "loop (started s) = Looping" "running (self (started s))"
    "worker_calls (started s) = []" "root_destroyed (self (started s)) = root_destroyed s"
    by (simp_all add: started_def run_def)
  note it = sys_run_iterates [OF start(1,2), of sf rs]
  have a: "loop (sys_run sf (started s) (map Iterate rs)) = Looping"
    using it by simp
  have b: "length (filter is_fetch (worker_calls (sys_run sf (started s) (map Iterate rs))))
        = length rs"
    using it start(3) by simp
  have c: "loop (sys_run sf (started s) xs) = Exited \<longrightarrow> (\<exists>x \<in> set xs. is_quit x)"
    using sys_run_stop [of sf "started s" xs] start(1,2) by auto
  have d: "\<not> root_destroyed s \<longrightarrow>
        loop (sys_run sf (started s) (map Iterate rs @ [Main Close_button, Iterate r]))
          = Exited"
  proof
    assume "\<not> root_destroyed s"
    then have "\<not> root_destroyed (self (sys_run sf (started s) (map Iterate rs)))"
      by (simp add: sys_run_iterates_root start(4))
    from quit_then_iterate_exits [OF a this]
    show "loop (sys_run sf (started s) (map Iterate rs @ [Main Close_button, Iterate r]))
          = Exited"
      by (simp only: sys_run_append)
  qed
  from a b c d show ?thesis by blast
qed

theorem poll_loop_stops_only_on_quit_witness:
  "loop (sys_run no_strings (started demo) [Iterate NoReply, Main Escape_key, Iterate NoReply])
     = Exited
   \<and> (\<exists>x \<in> set [Iterate NoReply, Main Escape_key, Iterate NoReply]. is_quit x)
   \<and> \<not> root_destroyed demo
   \<and> loop (sys_run no_strings (started demo)
        (map Iterate [NoReply, NoReply] @ [Main Close_button, Iterate NoReply])) = Exited"
proof -
  have h1: "loop (sys_run no_strings (started demo)
      [Iterate NoReply, Main Escape_key, Iterate NoReply]) = Exited"
    by (simp add: run_defs)
  have h2: "\<not> root_destroyed demo" by (simp add: demo_def)
  from poll_loop_stops_only_on_quit [of no_strings demo "[NoReply, NoReply]"
      "[Iterate NoReply, Main Escape_key, Iterate NoReply]" NoReply] h1 h2
  show ?thesis by blast
qed

text \<open>
  Claim C6. The sample count is the number of successful fetches of the polling loop. In
  every run of the two threads from the started tracker, \<open>count\<close> is its value at the
  start plus the number of requests of the loop that returned; for a list of replies it
  is the start value plus the number of replies that make a fetch succeed, so failed
  fetches add nothing; nothing resets it, since the equation holds after every run; and
  the constructor leaves it at 0, so that it equals exactly the number of successes.
\<close>

theorem sample_count_is_successes:
  "count (self (sys_run sf (started s) xs))
     = count s + int (successes (worker_calls (sys_run sf (started s) xs)))
   \<and> count (self (sys_run sf (started s) (map Iterate rs)))
       = count s + int (length (filter (fetch_ok sf) rs))
   \<and> (init sf window_width window_height interval r0 = Inr s \<longrightarrow>
        count (self (sys_run sf (started s) (map Iterate rs)))
          = int (length (filter (fetch_ok sf) rs)))"
proof -
  have start: "loop (started s) = Looping" "running (self (started s))"
    "worker_calls (started s) = []" "count (self (started s)) = count s"
    by (simp_all add: started_def run_def)
  have a: "count (self (sys_run sf (started s) xs))
     = count s + int (successes (worker_calls (sys_run sf (started s) xs)))"
    using sys_run_count [of "started s" sf xs] start(3,4) by (simp add: successes_def)
  have b: "count (self (sys_run sf (started s) (map Iterate rs)))
       = count s + int (length (filter (fetch_ok sf) rs))"
    using sys_run_iterates [OF start(1,2), of sf rs] start(4) by simp
  have c: "init sf window_width window_height interval r0 = Inr s \<longrightarrow> count s = 0"
    by (auto simp add: init_def create_widgets_def initialize_marker_def fresh_def
        get_iss_position_def
        split: prod.splits option.splits sum.splits reply.splits body.splits if_splits)
  from a b c show ?thesis by simp
qed

theorem sample_count_is_successes_witness:
  "init no_strings 2048 1536 10 (full_reply 10 20) = Inr demo
   \<and> count (self (sys_run no_strings (started demo)
        (map Iterate [full_reply 11 21, NoReply, latitude_only_reply 30, full_reply 12 22])))
       = int (length (filter (fetch_ok no_strings)
           [full_reply 11 21, NoReply, latitude_only_reply 30, full_reply 12 22]))
   \<and> length (filter (fetch_ok no_strings)
           [full_reply 11 21, NoReply, latitude_only_reply 30, full_reply 12 22]) = 2"
proof -
  have h: "init no_strings 2048 1536 10 (full_reply 10 20) = Inr demo"
    by (rule init_demo)
  have n: "length (filter (fetch_ok no_strings)
           [full_reply 11 21, NoReply, latitude_only_reply 30, full_reply 12 22]) = 2"
    by (simp add: fetch_ok_def get_iss_position_def full_reply_def latitude_only_reply_def
        raise_for_status_def dict_get_def)
  from sample_count_is_successes [of no_strings demo "[]"
      "[full_reply 11 21, NoReply, latitude_only_reply 30, full_reply 12 22]"
      2048 1536 10 "full_reply 10 20"] h n
  show ?thesis by simp
qed

section \<open>Which thread touches the widgets\<close>

text \<open>
  Claim C8 says that the worker thread never calls a method of a label, of the marker or
  of the map, and that every change of the display is delivered through the event queue
  of the main thread. One successful iteration of the started default tracker refutes
  it for the labels: the worker itself calls \<^verbatim>\<open>configure\<close> on the three labels, the count
  label goes from 0 to 1, and the main thread has made no call.
\<close>

theorem worker_configures_labels:
  "worker_calls (sys_run no_strings (started demo) [Iterate (full_reply 11 21)])
     = [Get_position None, Configure Lbl_count, Configure Lbl_lat, Configure Lbl_lon,
        After Update_marker_position, Sleep 10]
   \<and> main_calls (sys_run no_strings (started demo) [Iterate (full_reply 11 21)]) = []
   \<and> lbl_count demo = 0
   \<and> lbl_count (self (sys_run no_strings (started demo) [Iterate (full_reply 11 21)])) = 1"
  by (simp add: run_defs)

text \<open>
  Claim C8 as amended. The worker thread never calls a method of the marker or of the
  map: in every run, none of its calls acts on them, and a loop iteration leaves the
  marker and the centre of the map as they were. On every successful fetch (live window,
  interval not negative) the worker configures the three labels itself, then queues
  \<^verbatim>\<open>update_marker_position\<close> once with \<^verbatim>\<open>root.after\<close> for the main thread, then sleeps.
\<close>

theorem worker_enqueues_marker_update:
  "list_all (\<lambda>c. \<not> touches_map c) (worker_calls (sys_run sf (started s) xs))
   \<and> marker (obj (loop_body sf r p)) = marker (obj p)
   \<and> map_position (obj (loop_body sf r p)) = map_position (obj p)
   \<and> (fetch_ok sf r \<and> \<not> root_destroyed (obj p) \<and> 0 \<le> update_interval (obj p) \<longrightarrow>
        calls (loop_body sf r p)
          = calls p @ [Get_position None, Configure Lbl_count, Configure Lbl_lat,
                       Configure Lbl_lon, After Update_marker_position,
                       Sleep (update_interval (obj p))]
        \<and> after_queue (obj (loop_body sf r p))
            = after_queue (obj p) @ [Update_marker_position])"
proof -
  have a: "list_all (\<lambda>c. \<not> touches_map c) (worker_calls (sys_run sf (started s) xs))"
    by (rule sys_run_no_map_call) (simp add: started_def)
  have b: "fetch_ok sf r \<Longrightarrow> fst (get_iss_position sf r (obj p)) = None"
    using fetch_outcome_any_object [of sf r "obj p" "fresh 0 0 0"] by (simp add: fetch_ok_def)
  from a b loop_body_marker [of sf r p] loop_body_success(1,2) [of sf r p]
  show ?thesis by blast
qed

theorem worker_enqueues_marker_update_witness:
  "fetch_ok no_strings (full_reply 11 21)
   \<and> \<not> root_destroyed (obj \<lparr>obj = run demo, calls = []\<rparr>)
   \<and> 0 \<le> update_interval (obj \<lparr>obj = run demo, calls = []\<rparr>)
   \<and> calls (loop_body no_strings (full_reply 11 21) \<lparr>obj = run demo, calls = []\<rparr>)
       = [Get_position None, Configure Lbl_count, Configure Lbl_lat, Configure Lbl_lon,
          After Update_marker_position, Sleep 10]
   \<and> after_queue (obj (loop_body no_strings (full_reply 11 21) \<lparr>obj = run demo, calls = []\<rparr>))
       = [Update_marker_position]"
proof -
  have h1: "fetch_ok no_strings (full_reply 11 21)"
    by (simp add: fetch_ok_def get_iss_position_def full_reply_def raise_for_status_def
        dict_get_def)
  have h2: "\<not> root_destroyed (obj \<lparr>obj = run demo, calls = []\<rparr>)"
    and h3: "0 \<le> update_interval (obj \<lparr>obj = run demo, calls = []\<rparr>)"
    and v: "update_interval (obj \<lparr>obj = run demo, calls = []\<rparr>) = 10"
      "after_queue (obj \<lparr>obj = run demo, calls = []\<rparr>) = []"
      "calls \<lparr>obj = run demo, calls = []\<rparr> = []"
    by (simp_all add: run_def demo_def)
  from worker_enqueues_marker_update [of no_strings demo "[]" "full_reply 11 21"
      "\<lparr>obj = run demo, calls = []\<rparr>"] h1 h2 h3
  show ?thesis by (simp only: v append_Nil simp_thms)
qed

section \<open>Shutdown\<close>

text \<open>
  Claim C7 says that a second \<^verbatim>\<open>quit()\<close> does not raise. \<^verbatim>\<open>quit\<close> has no guard: the second
  call sends \<^verbatim>\<open>destroy\<close> to the window that the first call destroyed, and that raises
  \<^verbatim>\<open>TclError\<close>. Here on the started default tracker.
\<close>

theorem quit_twice_raises:
  "fst (quit ([] :: key_event list) \<lparr>obj = run demo, calls = []\<rparr>) = None
   \<and> fst (quit ([] :: key_event list)
        (snd (quit ([] :: key_event list) \<lparr>obj = run demo, calls = []\<rparr>))) = Some TclError"
  by (simp add: quit_def widget_call_def run_def demo_def)

text \<open>
  Claim C7 as amended. After a first \<^verbatim>\<open>quit()\<close> the running flag is false, and it is
  still false after a second one. The first call, on a live window, returns and leaves
  the window destroyed; the second call clears the flag again and then raises
  \<^verbatim>\<open>TclError\<close> from \<^verbatim>\<open>root.destroy()\<close>.
\<close>

theorem quit_twice_flag:
  "\<not> running (obj (snd (quit arts p)))
   \<and> \<not> running (obj (snd (quit arts' (snd (quit arts p)))))
   \<and> (\<not> root_destroyed (obj p) \<longrightarrow>
        fst (quit arts p) = None \<and> root_destroyed (obj (snd (quit arts p)))
        \<and> fst (quit arts' (snd (quit arts p))) = Some TclError)"
  by (simp add: quit_def widget_call_def)

theorem quit_twice_flag_witness:
  "\<not> root_destroyed (obj \<lparr>obj = run demo, calls = []\<rparr>)
   \<and> fst (quit [KeyPress] \<lparr>obj = run demo, calls = []\<rparr>) = None
   \<and> \<not> running (obj (snd (quit ([] :: key_event list)
          (snd (quit [KeyPress] \<lparr>obj = run demo, calls = []\<rparr>)))))"
proof -
  have h: "\<not> root_destroyed (obj \<lparr>obj = run demo, calls = []\<rparr>)"
    by (simp add: run_def demo_def)
  from quit_twice_flag [of "[KeyPress]" "\<lparr>obj = run demo, calls = []\<rparr>" "[] :: key_event list"] h
  show ?thesis by blast
qed

text \<open>
  Claim C9. \<^verbatim>\<open>quit\<close> takes any number of extra positional arguments and ignores them:
  with any arguments it does what it does with none, so the Escape binding (one argument,
  the event) and the close button (no argument) have the same effect, and on a live
  window the call returns without an exception.
\<close>

theorem quit_any_arguments:
  "quit arts p = quit ([] :: key_event list) p
   \<and> dispatch Escape_key y = dispatch Close_button y
   \<and> (\<not> root_destroyed (obj p) \<longrightarrow> fst (quit arts p) = None)"
  by (simp add: quit_def widget_call_def on_main_def)

theorem quit_any_arguments_witness:
  "\<not> root_destroyed (obj \<lparr>obj = run demo, calls = []\<rparr>)
   \<and> fst (quit [KeyPress, KeyPress, KeyPress] \<lparr>obj = run demo, calls = []\<rparr>) = None"
proof -
  have h: "\<not> root_destroyed (obj \<lparr>obj = run demo, calls = []\<rparr>)"
    by (simp add: run_def demo_def)
  from quit_any_arguments [of "[KeyPress, KeyPress, KeyPress]" "\<lparr>obj = run demo, calls = []\<rparr>"] h
  show ?thesis by blast
qed

section \<open>Snapshots under interleaving\<close>

text \<open>The steps of the worker in the machine are the assignments of the method: on every
  object, \<^verbatim>\<open>get_iss_position\<close> leaves what \<open>perform\<close> leaves for the kind of fetch that
  \<open>stores\<close> finds.\<close>

lemma get_iss_position_perform:
  "snd (get_iss_position sf r s) = perform (stores sf r) s"
  by (simp add: stores_def get_iss_position_def fresh_def
      split: reply.splits body.splits sum.splits)

lemma stores_examples:
  "stores sf (full_reply a b) = Stores_both a b"
  "stores sf (latitude_only_reply a) = Stores_latitude a"
  "stores sf NoReply = Stores_nothing"
  by (simp_all add: stores_def get_iss_position_def fresh_def full_reply_def
      latitude_only_reply_def raise_for_status_def dict_get_def)

text \<open>In the model of whole method calls too, a fetch that stored its latitude and raised
  leaves a pair that no fetch stored, and the next callback of the main thread passes it
  to the marker and the map.\<close>

lemma snapshot_after_failed_fetch:
  "main_calls (sys_run no_strings (started demo)
      [Iterate (full_reply 11 21), Iterate (latitude_only_reply 30), Main Timer])
     = [Marker_set_position 30 21, Map_set_position 30 21]"
  by (simp add: run_defs latitude_only_reply_def update_marker_position_def move_marker_def
      centre_map_def read_position_def)

lemma first_store_frame:
  "begun (first_store f c) = begun c" "pending (first_store f c) = pending c"
  "lon_attr (first_store f c) = lon_attr c" "lon_from (first_store f c) = lon_from c"
  "half_read (first_store f c) = half_read c" "seen (first_store f c) = seen c"
  "snapshots_left (first_store f c) = snapshots_left c"
  by (cases f; simp)+

lemma conc_inv_init: "conc_inv (la, lo) (conc_init la lo fs n)"
  by (simp add: conc_inv_def conc_init_def)

lemma conc_inv_worker: "conc_inv p c \<Longrightarrow> conc_inv p (conc_step c Worker)"
proof (cases "half_written c")
  case (Some lo)
  assume "conc_inv p c"
  with Some show ?thesis by (auto simp add: conc_inv_def)
next
  case None
  assume inv: "conc_inv p c"
  show ?thesis
  proof (cases "pending c")
    case Nil
    with None inv show ?thesis by simp
  next
    case (Cons f fs)
    with None inv show ?thesis
      by (cases f) (auto simp add: conc_inv_def)
  qed
qed

lemma conc_inv_ui: "conc_inv p c \<Longrightarrow> conc_inv p (conc_step c UI)"
  by (auto simp add: conc_inv_def split: option.splits nat.splits)

lemma conc_inv_step: "conc_inv p c \<Longrightarrow> conc_inv p (conc_step c t)"
  by (cases t) (simp_all only: conc_inv_worker conc_inv_ui)

lemma conc_inv_run: "conc_inv p c \<Longrightarrow> conc_inv p (conc_run c ts)"
  by (induction ts arbitrary: c) (simp_all add: conc_inv_step)

lemma conc_step_fetches: "rev (begun (conc_step c t)) @ pending (conc_step c t) = rev (begun c) @ pending c"
  by (cases t) (auto simp add: first_store_frame split: option.splits list.splits nat.splits)

lemma conc_run_fetches: "rev (begun (conc_run c ts)) @ pending (conc_run c ts) = rev (begun c) @ pending c"
  by (induction ts arbitrary: c) (simp_all add: conc_step_fetches)

lemma worker_step_keeps:
  "half_read (conc_step c Worker) = half_read c \<and> seen (conc_step c Worker) = seen c"
  by (auto simp add: first_store_frame split: option.splits list.splits)

lemma worker_steps_keep:
  "half_read (conc_run c (replicate k Worker)) = half_read c \<and>
   seen (conc_run c (replicate k Worker)) = seen c"
proof (induction k arbitrary: c)
  case 0
  then show ?case by simp
next
  case (Suc k)
  from Suc.IH [of "conc_step c Worker"] worker_step_keeps [of c]
  show ?case by (simp del: conc_step.simps)
qed

lemma conc_step_seen: "\<exists>ys. seen (conc_step c t) = seen c @ ys"
proof (cases t)
  case Worker
  with worker_step_keeps [of c] show ?thesis by (simp del: conc_step.simps)
next
  case UI
  then show ?thesis by (auto split: option.splits nat.splits)
qed

lemma conc_run_seen: "\<exists>ys. seen (conc_run c ts) = seen c @ ys"
proof (induction ts arbitrary: c)
  case Nil
  then show ?case by simp
next
  case (Cons t ts)
  from conc_step_seen [of c t] obtain ys where a: "seen (conc_step c t) = seen c @ ys" ..
  from Cons.IH [of "conc_step c t"] obtain zs
    where "seen (conc_run (conc_step c t) ts) = seen (conc_step c t) @ zs" ..
  with a show ?case by simp
qed

lemma conc_run_append: "conc_run c (ts @ us) = conc_run (conc_run c ts) us"
  by (induction ts arbitrary: c) simp_all

lemma snapshot_shot:
  assumes "half_read c = None" and "snapshots_left c \<noteq> 0"
  shows "seen (conc_run c (UI # replicate k Worker @ UI # post)) ! length (seen c)
     = \<lparr>shot_lat = lat_attr c,
        shot_lon = lon_attr (conc_run (conc_step c UI) (replicate k Worker)),
        lat_fetch = lat_from c,
        lon_fetch = lon_from (conc_run (conc_step c UI) (replicate k Worker))\<rparr>"
proof -
  let ?c1 = "conc_step c UI"
  let ?d = "conc_run ?c1 (replicate k Worker)"
  from assms have c1: "half_read ?c1 = Some (lat_attr c, lat_from c)" "seen ?c1 = seen c"
    by (auto split: nat.splits)
  with worker_steps_keep [of ?c1 k]
  have d: "half_read ?d = Some (lat_attr c, lat_from c)" "seen ?d = seen c"
    by simp_all
  then have e: "seen (conc_step ?d UI)
      = seen c @ [\<lparr>shot_lat = lat_attr c, shot_lon = lon_attr ?d,
                    lat_fetch = lat_from c, lon_fetch = lon_from ?d\<rparr>]"
    by simp
  from conc_run_seen [of "conc_step ?d UI" post] obtain ys
    where "seen (conc_run (conc_step ?d UI) post) = seen (conc_step ?d UI) @ ys" ..
  with e have "seen (conc_run (conc_step ?d UI) post) ! length (seen c)
      = \<lparr>shot_lat = lat_attr c, shot_lon = lon_attr ?d,
         lat_fetch = lat_from c, lon_fetch = lon_from ?d\<rparr>"
    by (simp add: nth_append)
  then show ?thesis by (simp add: conc_run_append)
qed


lemma whole_state:
  assumes "conc_inv p c"
  shows "lon_from c \<le> lat_from c"
    and "half_written c = None \<Longrightarrow> whole (begun c) \<Longrightarrow>
         lat_from c = lon_from c \<and> (lat_attr c, lon_attr c) = latest_pair p (begun c)"
    and "half_written c \<noteq> None \<or> \<not> whole (begun c) \<Longrightarrow> lon_from c < lat_from c"
  using assms by (auto simp add: conc_inv_def split: option.splits)

lemma ui_step_attrs:
  "lat_attr (conc_step c UI) = lat_attr c" "lon_attr (conc_step c UI) = lon_attr c"
  "lat_from (conc_step c UI) = lat_from c" "lon_from (conc_step c UI) = lon_from c"
  by (auto split: option.splits nat.splits)

text \<open>
  Claim C1 says that under every interleaving a snapshot observes a latitude and a
  longitude written by the same write. With (10, 20) stored and one fetch that stores
  (11, 21): the worker stores the latitude, the main thread then loads both attributes,
  the worker then stores the longitude. The snapshot is (11, 20), the latitude of fetch 1
  with the longitude of the constructor, which is neither the pair stored before nor the
  pair written.
\<close>

theorem torn_snapshot:
  "seen (conc_run (conc_init 10 20 [Stores_both 11 21] 1) [Worker, UI, UI, Worker])
     = [\<lparr>shot_lat = 11, shot_lon = 20, lat_fetch = 1, lon_fetch = 0\<rparr>]
   \<and> lat_attr (conc_run (conc_init 10 20 [Stores_both 11 21] 1) [Worker, UI, UI, Worker]) = 11
   \<and> lon_attr (conc_run (conc_init 10 20 [Stores_both 11 21] 1) [Worker, UI, UI, Worker]) = 21
   \<and> (11 :: real, 20 :: real) \<notin> set [(10, 20), (11, 21)]"
  by (simp add: conc_init_def)

text \<open>
  Claim C1 as amended. Let \<open>c\<close> be the state after any schedule \<open>pre\<close>, from any stored
  position and any list of fetches (which may store both attributes, the latitude only,
  or nothing), at a moment when the main thread is about to take a snapshot.

  \<^item> Under every interleaving (any number \<open>k\<close> of worker steps between the two loads, any
    schedule \<open>post\<close> afterwards) the snapshot is the latitude stored at its first load
    with the longitude stored at its second load, each with the number of the fetch that
    stored it.
  \<^item> If at the first load the worker is not between line 115 and line 116 and the latest
    fetch that stored a latitude also stored its longitude (or none has stored one), and
    the second load follows with no step of the worker in between, then the latitude and
    the longitude of the snapshot were stored by the same fetch, and they are the pair of
    the latest fetch that stored both, or the constructor's pair.
  \<^item> If at the first load the worker is between line 115 and line 116, or the latest
    fetch that stored a latitude raised at line 116, then such a snapshot has the stored
    latitude with a longitude that an earlier fetch stored.
\<close>

theorem snapshot_pairs:
  fixes la lo :: real and fs :: "fetch list" and n k :: nat and pre post :: "thread list"
  defines "c \<equiv> conc_run (conc_init la lo fs n) pre"
  defines "d \<equiv> conc_run (conc_step c UI) (replicate k Worker)"
  defines "s \<equiv> seen (conc_run c (UI # UI # post)) ! length (seen c)"
  shows "rev (begun c) @ pending c = fs
   \<and> (half_read c = None \<and> snapshots_left c \<noteq> 0 \<longrightarrow>
        seen (conc_run c (UI # replicate k Worker @ UI # post)) ! length (seen c)
          = \<lparr>shot_lat = lat_attr c, shot_lon = lon_attr d,
             lat_fetch = lat_from c, lon_fetch = lon_from d\<rparr>)
   \<and> (half_read c = None \<and> snapshots_left c \<noteq> 0 \<and> half_written c = None
        \<and> whole (begun c) \<longrightarrow>
        lat_fetch s = lon_fetch s \<and> (shot_lat s, shot_lon s) = latest_pair (la, lo) (begun c))
   \<and> (half_read c = None \<and> snapshots_left c \<noteq> 0
        \<and> (half_written c \<noteq> None \<or> \<not> whole (begun c)) \<longrightarrow>
        lon_fetch s < lat_fetch s \<and> shot_lat s = lat_attr c \<and> shot_lon s = lon_attr c)"
proof -
  have inv: "conc_inv (la, lo) c"
    unfolding c_def by (rule conc_inv_run) (rule conc_inv_init)
  have a: "rev (begun c) @ pending c = fs"
    unfolding c_def by (simp add: conc_run_fetches conc_init_def)
  have b: "seen (conc_run c (UI # replicate k Worker @ UI # post)) ! length (seen c)
          = \<lparr>shot_lat = lat_attr c, shot_lon = lon_attr d,
             lat_fetch = lat_from c, lon_fetch = lon_from d\<rparr>"
    if "half_read c = None" "snapshots_left c \<noteq> 0"
    unfolding d_def using that by (rule snapshot_shot)
  have s: "s = \<lparr>shot_lat = lat_attr c, shot_lon = lon_attr c,
             lat_fetch = lat_from c, lon_fetch = lon_from c\<rparr>"
    if "half_read c = None" "snapshots_left c \<noteq> 0"
    using snapshot_shot [OF that, of 0 post] unfolding s_def
    by (simp add: ui_step_attrs del: conc_step.simps)
  have e: "lat_fetch s = lon_fetch s \<and> (shot_lat s, shot_lon s) = latest_pair (la, lo) (begun c)"
    if "half_read c = None" "snapshots_left c \<noteq> 0" "half_written c = None" "whole (begun c)"
    using s [OF that(1,2)] whole_state(2) [OF inv that(3,4)] by simp
  have f: "lon_fetch s < lat_fetch s \<and> shot_lat s = lat_attr c \<and> shot_lon s = lon_attr c"
    if "half_read c = None" "snapshots_left c \<noteq> 0" "half_written c \<noteq> None \<or> \<not> whole (begun c)"
    using s [OF that(1,2)] whole_state(3) [OF inv that(3)] by simp
  from a b e f show ?thesis by blast
qed

theorem snapshot_pairs_witness:
  "half_read (conc_run two_fetches [Worker, Worker]) = None
   \<and> snapshots_left (conc_run two_fetches [Worker, Worker]) \<noteq> 0
   \<and> half_written (conc_run two_fetches [Worker, Worker]) = None
   \<and> whole (begun (conc_run two_fetches [Worker, Worker]))
   \<and> seen (conc_run (conc_run two_fetches [Worker, Worker]) (UI # UI # []))
        ! length (seen (conc_run two_fetches [Worker, Worker]))
       = \<lparr>shot_lat = 11, shot_lon = 21, lat_fetch = 1, lon_fetch = 1\<rparr>
   \<and> half_read (conc_run two_fetches [Worker, Worker, Worker]) = None
   \<and> snapshots_left (conc_run two_fetches [Worker, Worker, Worker]) \<noteq> 0
   \<and> \<not> whole (begun (conc_run two_fetches [Worker, Worker, Worker]))
   \<and> lon_fetch (seen (conc_run (conc_run two_fetches [Worker, Worker, Worker]) (UI # UI # []))
        ! length (seen (conc_run two_fetches [Worker, Worker, Worker])))
       < lat_fetch (seen (conc_run (conc_run two_fetches [Worker, Worker, Worker]) (UI # UI # []))
        ! length (seen (conc_run two_fetches [Worker, Worker, Worker])))
   \<and> shot_lat (seen (conc_run (conc_run two_fetches [Worker, Worker, Worker]) (UI # UI # []))
        ! length (seen (conc_run two_fetches [Worker, Worker, Worker]))) = 30
   \<and> shot_lon (seen (conc_run (conc_run two_fetches [Worker, Worker, Worker]) (UI # UI # []))
        ! length (seen (conc_run two_fetches [Worker, Worker, Worker]))) = 21"
proof -
  let ?c = "conc_run two_fetches [Worker, Worker]"
  let ?e = "conc_run two_fetches [Worker, Worker, Worker]"
  have h: "half_read ?c = None" "snapshots_left ?c \<noteq> 0" "half_written ?c = None"
    "whole (begun ?c)"
    by (simp_all add: two_fetches_def conc_init_def)
  have v: "lat_attr ?c = 11" "lon_attr (conc_run (conc_step ?c UI) []) = 21"
    "lat_from ?c = 1" "lon_from (conc_run (conc_step ?c UI) []) = 1"
    by (simp_all add: two_fetches_def conc_init_def)
  have g: "half_read ?e = None" "snapshots_left ?e \<noteq> 0" "\<not> whole (begun ?e)"
    by (simp_all add: two_fetches_def conc_init_def)
  have w: "lat_attr ?e = 30" "lon_attr ?e = 21"
    by (simp_all add: two_fetches_def conc_init_def)
  note t1 = snapshot_pairs [where la = 10 and lo = 20
      and fs = "[Stores_both 11 21, Stores_latitude 30]" and n = 2
      and pre = "[Worker, Worker]" and k = 0 and post = "[]", folded two_fetches_def]
  note t2 = snapshot_pairs [where la = 10 and lo = 20
      and fs = "[Stores_both 11 21, Stores_latitude 30]" and n = 2
      and pre = "[Worker, Worker, Worker]" and k = 0 and post = "[]", folded two_fetches_def]
  from t1 h have "seen (conc_run ?c (UI # replicate 0 Worker @ UI # [])) ! length (seen ?c)
      = \<lparr>shot_lat = lat_attr ?c,
         shot_lon = lon_attr (conc_run (conc_step ?c UI) (replicate 0 Worker)),
         lat_fetch = lat_from ?c,
         lon_fetch = lon_from (conc_run (conc_step ?c UI) (replicate 0 Worker))\<rparr>"
    by blast
  then have a: "seen (conc_run ?c (UI # UI # [])) ! length (seen ?c)
      = \<lparr>shot_lat = 11, shot_lon = 21, lat_fetch = 1, lon_fetch = 1\<rparr>"
    by (simp only: v replicate_0 append_Nil)
  from t2 g have "lon_fetch (seen (conc_run ?e (UI # UI # [])) ! length (seen ?e))
       < lat_fetch (seen (conc_run ?e (UI # UI # [])) ! length (seen ?e))
     \<and> shot_lat (seen (conc_run ?e (UI # UI # [])) ! length (seen ?e)) = lat_attr ?e
     \<and> shot_lon (seen (conc_run ?e (UI # UI # [])) ! length (seen ?e)) = lon_attr ?e"
    by blast
  then have b: "lon_fetch (seen (conc_run ?e (UI # UI # [])) ! length (seen ?e))
       < lat_fetch (seen (conc_run ?e (UI # UI # [])) ! length (seen ?e))
     \<and> shot_lat (seen (conc_run ?e (UI # UI # [])) ! length (seen ?e)) = 30
     \<and> shot_lon (seen (conc_run ?e (UI # UI # [])) ! length (seen ?e)) = 21"
    by (simp only: w)
  from h g a b show ?thesis by blast
qed

end
